theory Spec2Isabelle
  imports Complex_Main
begin

section \<open>Arrays\<close>

text \<open>
  The program works on numpy arrays. A three-dimensional array indexed [band, row, col]
  is its shape together with its elements in row-major (C) order, which is how numpy
  stores what rasterio reads. A two-dimensional array is its shape and its list of rows;
  the shape is kept apart from the rows because an array with no rows still has a column
  count (\<open>values.shape[1]\<close>).

  Pixel values of the reference and target images are real numbers, and the arithmetic on
  them is exact where numpy's is float64. The theorems below use it only to evaluate the
  examples, which are chosen so that every intermediate value is a small integer or a
  power of two and float64 computes it without rounding, and to compare a computation
  with itself; none of them rests on a law of the real numbers that float64 lacks. Values
  of the annotation image are integers.
\<close>

record 'a ndarray3 =
  dim0 :: nat
  dim1 :: nat
  dim2 :: nat
  flat :: "'a list"

record 'a ndarray2 =
  shape0 :: nat
  shape1 :: nat
  rows :: "'a list list"

text \<open>Every numpy array holds exactly as many elements as its shape says.\<close>

definition wf3 :: "'a ndarray3 \<Rightarrow> bool" where
  "wf3 a \<longleftrightarrow> length (flat a) = dim0 a * (dim1 a * dim2 a)"

text \<open>\<open>a[b, r, c]\<close> for indices in range.\<close>

definition at3 :: "'a ndarray3 \<Rightarrow> nat \<Rightarrow> nat \<Rightarrow> nat \<Rightarrow> 'a" where
  "at3 a b r c = flat a ! (b * (dim1 a * dim2 a) + (r * dim2 a + c))"

text \<open>\<open>a[b, :, :]\<close>, flattened in raster (row-major) order.\<close>

definition plane :: "'a ndarray3 \<Rightarrow> nat \<Rightarrow> 'a list" where
  "plane a b = take (dim1 a * dim2 a) (drop (b * (dim1 a * dim2 a)) (flat a))"

section \<open>Errors\<close>

text \<open>
  The two \<open>raise Exception(...)\<close> of the source are told apart by their message; the other
  constructors are the exceptions that numpy and Python raise on the way.
\<close>

datatype error =
    UnexpectedMaskBands nat
  | NotEnoughAnnotatedPixels nat
  | IndexError
  | ValueError
  | LinAlgError
  | AttributeError
  | ZeroDivisionError

text \<open>
  Python indexing of an axis of length \<open>n\<close>: a negative index counts from the end, an index
  outside \<open>[-n, n)\<close> raises IndexError (here: \<open>None\<close>).
\<close>

definition py_index :: "nat \<Rightarrow> int \<Rightarrow> nat option" where
  "py_index n i =
     (if 0 \<le> i \<and> i < int n then Some (nat i)
      else if - int n \<le> i \<and> i < 0 then Some (nat (int n + i))
      else None)"

definition index_all :: "nat \<Rightarrow> int list \<Rightarrow> nat list option" where
  "index_all n bs = those (map (py_index n) bs)"

section \<open>ReferencePixels\<close>

text \<open>
  The object after its constructor has run. The fields \<open>mask_image\<close> and \<open>pixel_values\<close>
  are the attributes \<open>mask\<close> and \<open>values\<close> of the source; \<open>bands_to_use\<close> holds the
  selection after line 28 has replaced a missing one.
\<close>

record reference_pixels =
  reference_image :: "real ndarray3"
  mask_image :: "int ndarray3"
  bands_to_use :: "int list"
  pixel_values :: "real ndarray2"

text \<open>
  Lines 43 to 57 of \<open>generate_pixel_mask\<close>: the array \<open>pixel_mask\<close> (255 or 0 per pixel, in
  raster order), or the exception for an annotation image that has neither 1 nor 3 nor 4
  bands.
\<close>

definition pixel_mask_of ::
  "int \<times> int \<times> int \<Rightarrow> int \<times> int \<times> int \<Rightarrow> int ndarray3 \<Rightarrow> error + int list" where
  "pixel_mask_of lower_range higher_range m =
     (case lower_range of (l0, l1, l2) \<Rightarrow>
      case higher_range of (h0, h1, h2) \<Rightarrow>
        if dim0 m = 3 \<or> dim0 m = 4 then
          Inr (map (\<lambda>(r, g, b).
                 if r > l0 \<and> r < h0 \<and> g > l1 \<and> g < h1 \<and> b > l2 \<and> b < h2
                 then 255 else 0)
               (zip (plane m 0) (zip (plane m 1) (plane m 2))))
        else if dim0 m = 1 then
          Inr (map (\<lambda>v. if v > 127 then 255 else 0) (plane m 0))
        else Inl (UnexpectedMaskBands (dim0 m)))"

text \<open>
  Lines 58 and 59: boolean indexing of the two spatial axes (the shapes must agree), then
  the selection of the bands. The result is the new \<open>self.values\<close>.
\<close>

definition generate_pixel_mask ::
  "int \<times> int \<times> int \<Rightarrow> int \<times> int \<times> int \<Rightarrow> real ndarray3 \<Rightarrow> int ndarray3 \<Rightarrow> int list
     \<Rightarrow> error + real ndarray2" where
  "generate_pixel_mask lower_range higher_range ref msk bands =
     (case pixel_mask_of lower_range higher_range msk of
        Inl e \<Rightarrow> Inl e
      | Inr pixel_mask \<Rightarrow>
          if (dim1 msk, dim2 msk) \<noteq> (dim1 ref, dim2 ref) then Inl IndexError
          else
            let selected =
                  map (\<lambda>b. map snd (filter (\<lambda>(m, v). m = 255) (zip pixel_mask (plane ref b))))
                    [0..<dim0 ref];
                n = length (filter (\<lambda>m. m = 255) pixel_mask)
            in case index_all (dim0 ref) bands of
                 None \<Rightarrow> Inl IndexError
               | Some js \<Rightarrow>
                   Inr \<lparr>shape0 = length js, shape1 = n, rows = map (\<lambda>j. selected ! j) js\<rparr>)"

definition default_lower_range :: "int \<times> int \<times> int" where
  "default_lower_range = (245, 0, 0)"

definition default_higher_range :: "int \<times> int \<times> int" where
  "default_higher_range = (256, 10, 10)"

definition min_annotated_pixels :: nat where
  "min_annotated_pixels = 100"

definition show_statistics_of_pixel_mask :: "real ndarray2 \<Rightarrow> error + unit" where
  "show_statistics_of_pixel_mask vals =
     (if shape1 vals \<le> min_annotated_pixels then Inl (NotEnoughAnnotatedPixels (shape1 vals))
      else Inr ())"

text \<open>
  The constructor, which runs \<open>initialize\<close>: the two images arrive decoded, a missing band
  selection becomes \<open>tuple(range(shape[0] - 1))\<close>, the sample is extracted with the default
  colour box and its size is checked.
\<close>

definition initialize_bands :: "real ndarray3 \<Rightarrow> int list option \<Rightarrow> int list" where
  "initialize_bands ref bands =
     (case bands of None \<Rightarrow> map int [0..<dim0 ref - 1] | Some bs \<Rightarrow> bs)"

definition ReferencePixels ::
  "real ndarray3 \<Rightarrow> int ndarray3 \<Rightarrow> int list option \<Rightarrow> error + reference_pixels" where
  "ReferencePixels reference annotated bands =
     (let bs = initialize_bands reference bands in
      case generate_pixel_mask default_lower_range default_higher_range reference annotated bs of
        Inl e \<Rightarrow> Inl e
      | Inr vals \<Rightarrow>
          (case show_statistics_of_pixel_mask vals of
             Inl e \<Rightarrow> Inl e
           | Inr _ \<Rightarrow>
               Inr \<lparr>reference_image = reference, mask_image = annotated,
                    bands_to_use = bs, pixel_values = vals\<rparr>))"

section \<open>Numerical library operations\<close>

text \<open>
  The mean of every row. The sampler has checked that there are more than 100 columns, so
  the division is by a positive number.
\<close>

definition row_means :: "real ndarray2 \<Rightarrow> real list" where
  "row_means vals = map (\<lambda>row. sum_list row / real (shape1 vals)) (rows vals)"

text \<open>
  \<open>np.average(values, axis=1)\<close>: the row means. numpy also computes the scale
  \<open>a.size / avg.size\<close> in Python integers, so for an array without rows (an empty band
  selection) it divides 0 by 0 and raises ZeroDivisionError.
\<close>

definition np_average :: "real ndarray2 \<Rightarrow> error + real list" where
  "np_average vals = (if shape0 vals = 0 then Inl ZeroDivisionError else Inr (row_means vals))"

text \<open>
  \<open>np.cov(values)\<close>: every row is a variable, every column an observation, the normalisation
  is by \<open>N - 1\<close>. \<open>covariance_table\<close> is the product of the centred rows with themselves,
  scaled (for an array without rows \<open>np.cov\<close> returns the empty 0 by 0 array at once);
  numpy then squeezes it, so for a single variable the result is a 0-dimensional array (a
  scalar), not a 1 by 1 matrix.
\<close>

datatype cov = Scalar real | Matrix "real list list"

definition covariance_table :: "real ndarray2 \<Rightarrow> real list list" where
  "covariance_table vals =
     (let avg = row_means vals;
          X = map2 (\<lambda>row a. map (\<lambda>x. x - a) row) (rows vals) avg;
          fact = real (shape1 vals - 1)
      in map (\<lambda>xi. map (\<lambda>xj. sum_list (map2 (*) xi xj) * (1 / fact)) X) X)"

definition squeeze :: "real list list \<Rightarrow> cov" where
  "squeeze c = (case c of [[v]] \<Rightarrow> Scalar v | _ \<Rightarrow> Matrix c)"

definition np_cov :: "real ndarray2 \<Rightarrow> cov" where
  "np_cov vals = squeeze (covariance_table vals)"

text \<open>
  \<open>np.linalg.inv\<close>: a 0-dimensional or non-square argument raises LinAlgError, and so does
  a singular matrix. The numerical inversion itself is LAPACK's and not part of this
  program; it is the parameter \<open>lapack_inv\<close>, which answers \<open>None\<close> for a singular matrix.
\<close>

definition np_linalg_inv ::
  "(real list list \<Rightarrow> real list list option) \<Rightarrow> cov \<Rightarrow> error + real list list" where
  "np_linalg_inv lapack_inv c =
     (case c of
        Scalar _ \<Rightarrow> Inl LinAlgError
      | Matrix S \<Rightarrow>
          if list_all (\<lambda>row. length row = length S) S
          then (case lapack_inv S of None \<Rightarrow> Inl LinAlgError | Some P \<Rightarrow> Inr P)
          else Inl LinAlgError)"

text \<open>\<open>d @ P\<close> for a vector \<open>d\<close> of length \<open>B\<close> and a \<open>B\<close> by \<open>B\<close> matrix \<open>P\<close>.\<close>

definition matmul_row :: "real list \<Rightarrow> real list list \<Rightarrow> real list" where
  "matmul_row d P = map (\<lambda>j. sum_list (map2 (\<lambda>x row. x * row ! j) d P)) [0..<length d]"

text \<open>\<open>np.sqrt\<close>: the square root of a negative number is NaN, here \<open>None\<close>.\<close>

definition np_sqrt :: "real \<Rightarrow> real option" where
  "np_sqrt x = (if x < 0 then None else Some (sqrt x))"

section \<open>The distance models\<close>

text \<open>
  \<open>BaseDistance.__init__\<close> builds the sampler and copies its band selection (which
  \<open>ReferencePixels.initialize\<close> has already defaulted, so the \<open>assert\<close> of
  \<open>calculate_distance\<close> always holds); the field \<open>distance_bands_to_use\<close> is the model's
  own attribute \<open>bands_to_use\<close>. The attributes that \<open>calculate_statistics\<close> creates are
  absent (\<open>None\<close>) until \<open>initialize\<close> has run.
\<close>

record base_distance =
  reference_pixels :: reference_pixels
  distance_bands_to_use :: "int list"

record mahalanobis_distance = base_distance +
  covariance :: "cov option"
  average :: "real list option"

record 'g gaussian_mixture_model_distance = base_distance +
  n_components :: nat
  gmm :: "'g option"

definition MahalanobisDistance ::
  "real ndarray3 \<Rightarrow> int ndarray3 \<Rightarrow> int list option \<Rightarrow> error + mahalanobis_distance" where
  "MahalanobisDistance reference annotated bands =
     (case ReferencePixels reference annotated bands of
        Inl e \<Rightarrow> Inl e
      | Inr rp \<Rightarrow>
          Inr \<lparr>reference_pixels = rp, distance_bands_to_use = bands_to_use rp,
               covariance = None, average = None\<rparr>)"

definition GaussianMixtureModelDistance ::
  "nat \<Rightarrow> real ndarray3 \<Rightarrow> int ndarray3 \<Rightarrow> int list option
     \<Rightarrow> error + 'g gaussian_mixture_model_distance" where
  "GaussianMixtureModelDistance k reference annotated bands =
     (case ReferencePixels reference annotated bands of
        Inl e \<Rightarrow> Inl e
      | Inr rp \<Rightarrow>
          Inr \<lparr>reference_pixels = rp, distance_bands_to_use = bands_to_use rp,
               n_components = k, gmm = None\<rparr>)"

text \<open>
  \<open>MahalanobisDistance.calculate_statistics\<close>: line 126 sets the covariance, line 127 the
  mean, or raises. \<open>initialize\<close> runs it and prints.
\<close>

definition calculate_statistics :: "mahalanobis_distance \<Rightarrow> error + mahalanobis_distance" where
  "calculate_statistics self =
     (let covariance' = np_cov (pixel_values (reference_pixels self))
      in case np_average (pixel_values (reference_pixels self)) of
           Inl e \<Rightarrow> Inl e
         | Inr average' \<Rightarrow> Inr (self\<lparr>covariance := Some covariance', average := Some average'\<rparr>))"

definition initialize :: "mahalanobis_distance \<Rightarrow> error + mahalanobis_distance" where
  "initialize self = calculate_statistics self"

text \<open>
  Line 135 (and 168): \<open>image[bands, :, :]\<close> raises IndexError for a band the image does not
  have; the reshape to \<open>(len(bands), -1)\<close> raises ValueError for an empty selection; the
  transposed result has one row per pixel, in raster order, holding the pixel's values at
  the selected bands in selection order.
\<close>

definition select_pixels :: "real ndarray3 \<Rightarrow> int list \<Rightarrow> error + real list list" where
  "select_pixels img bands =
     (case index_all (dim0 img) bands of
        None \<Rightarrow> Inl IndexError
      | Some js \<Rightarrow>
          if js = [] then Inl ValueError
          else
            let reshaped = map (plane img) js
            in Inr (map (\<lambda>p. map (\<lambda>band. band ! p) reshaped) [0..<dim1 img * dim2 img]))"

text \<open>
  \<open>MahalanobisDistance.calculate_distance\<close>. The pixel vectors, the mean and the inverse
  all come from the one band selection of the model, so the element-wise operations meet
  operands of equal length (\<open>map2\<close> never truncates where numpy would refuse to broadcast).
\<close>

definition calculate_distance ::
  "(real list list \<Rightarrow> real list list option) \<Rightarrow> mahalanobis_distance \<Rightarrow> real ndarray3
     \<Rightarrow> error + real option ndarray3" where
  "calculate_distance lapack_inv self img =
     (case select_pixels img (distance_bands_to_use self) of
        Inl e \<Rightarrow> Inl e
      | Inr pixels \<Rightarrow>
     (case covariance self of
        None \<Rightarrow> Inl AttributeError
      | Some cv \<Rightarrow>
     (case np_linalg_inv lapack_inv cv of
        Inl e \<Rightarrow> Inl e
      | Inr inv_cov \<Rightarrow>
     (case average self of
        None \<Rightarrow> Inl AttributeError
      | Some avg \<Rightarrow>
          let diff = map (\<lambda>x. map2 (-) x avg) pixels;
              modified_dot_product = map (\<lambda>d. map2 (*) d (matmul_row d inv_cov)) diff;
              distance = map sum_list modified_dot_product;
              distance = map np_sqrt distance
          in Inr \<lparr>dim0 = 1, dim1 = dim1 img, dim2 = dim2 img, flat = distance\<rparr>))))"

text \<open>
  The mixture model delegates to scikit-learn, which is not part of this program: \<open>fit\<close>
  stands for \<open>GaussianMixture(n_components, covariance_type="full").fit\<close> and
  \<open>score_samples\<close> for the fitted object's method of that name. The attributes \<open>average\<close>
  and \<open>covariance\<close> of the mixture are copies of the fitted object's parameters that scoring
  never reads; they are left out.
\<close>

definition gmm_calculate_statistics ::
  "(nat \<Rightarrow> real list list \<Rightarrow> error + 'g) \<Rightarrow> 'g gaussian_mixture_model_distance
     \<Rightarrow> error + 'g gaussian_mixture_model_distance" where
  "gmm_calculate_statistics fit self =
     (let vals = pixel_values (reference_pixels self);
          observations = map (\<lambda>k. map (\<lambda>row. row ! k) (rows vals)) [0..<shape1 vals]
      in case fit (n_components self) observations of
           Inl e \<Rightarrow> Inl e
         | Inr g \<Rightarrow> Inr (self\<lparr>gmm := Some g\<rparr>))"

definition gmm_calculate_distance ::
  "('g \<Rightarrow> real list list \<Rightarrow> error + real list) \<Rightarrow> 'g gaussian_mixture_model_distance
     \<Rightarrow> real ndarray3 \<Rightarrow> error + real ndarray3" where
  "gmm_calculate_distance score_samples self img =
     (case select_pixels img (distance_bands_to_use self) of
        Inl e \<Rightarrow> Inl e
      | Inr pixels \<Rightarrow>
     (case gmm self of
        None \<Rightarrow> Inl AttributeError
      | Some g \<Rightarrow>
     (case score_samples g pixels of
        Inl e \<Rightarrow> Inl e
      | Inr loglikelihood \<Rightarrow>
          if length loglikelihood \<noteq> dim1 img * dim2 img then Inl ValueError
          else Inr \<lparr>dim0 = 1, dim1 = dim1 img, dim2 = dim2 img, flat = loglikelihood\<rparr>)))"

section \<open>Notions the claims speak about\<close>

text \<open>
  The vector of a pixel's values at the bands \<open>js\<close>, in that order.
\<close>

definition pixel_vector :: "'a ndarray3 \<Rightarrow> nat list \<Rightarrow> nat \<Rightarrow> nat \<Rightarrow> 'a list" where
  "pixel_vector img js r c = map (\<lambda>j. at3 img j r c) js"

text \<open>
  Two images agree at pixel \<open>(r, c)\<close> on every band that the selection \<open>bands\<close> picks
  (by Python indexing of the band axis).
\<close>

definition agree_at :: "int list \<Rightarrow> 'a ndarray3 \<Rightarrow> 'a ndarray3 \<Rightarrow> nat \<Rightarrow> nat \<Rightarrow> bool" where
  "agree_at bands img1 img2 r c \<longleftrightarrow>
     list_all (\<lambda>b. case py_index (dim0 img1) b of
                      None \<Rightarrow> True
                    | Some j \<Rightarrow> at3 img1 j r c = at3 img2 j r c) bands"

section \<open>Example inputs\<close>

text \<open>
  A one-band annotation image of one row whose \<open>n\<close> pixels are all white, and a reference
  image of the same extent with \<open>b\<close> bands of zeros.
\<close>

definition white_annotation :: "nat \<Rightarrow> int ndarray3" where
  "white_annotation n = \<lparr>dim0 = 1, dim1 = 1, dim2 = n, flat = replicate n 255\<rparr>"

definition blank_reference :: "nat \<Rightarrow> nat \<Rightarrow> real ndarray3" where
  "blank_reference b n = \<lparr>dim0 = b, dim1 = 1, dim2 = n, flat = replicate (b * n) 0\<rparr>"

text \<open>
  A four-band reference image of one row of 101 pixels; band \<open>b\<close> holds the value \<open>b + 1\<close>
  everywhere, so that the rows of a sample tell which bands they come from.
\<close>

definition four_band_reference :: "real ndarray3" where
  "four_band_reference = \<lparr>dim0 = 4, dim1 = 1, dim2 = 101,
     flat = replicate 101 1 @ replicate 101 2 @ replicate 101 3 @ replicate 101 4\<rparr>"

text \<open>
  A three-band reference image of one row of 257 pixels. Its first two bands have mean 1
  and covariance \<open>diag (1/64, 1/64)\<close> (the sums of squares are 4 and the normalisation is
  by 256); the third band is the one that the default band selection drops.
\<close>

definition example_reference :: "real ndarray3" where
  "example_reference = \<lparr>dim0 = 3, dim1 = 1, dim2 = 257,
     flat = ([2, 0, 2, 0] @ replicate 253 1)
          @ ([2, 2, 0, 0] @ replicate 253 1)
          @ replicate 257 0\<rparr>"

definition example_sample :: "real ndarray2" where
  "example_sample = \<lparr>shape0 = 2, shape1 = 257,
     rows = [[2, 0, 2, 0] @ replicate 253 1, [2, 2, 0, 0] @ replicate 253 1]\<rparr>"

text \<open>The unimodal model on the first two bands, as constructed and as fitted.\<close>

definition example_unfitted :: mahalanobis_distance where
  "example_unfitted =
     \<lparr>reference_pixels =
        \<lparr>reference_image = example_reference, mask_image = white_annotation 257,
         bands_to_use = [0, 1], pixel_values = example_sample\<rparr>,
      distance_bands_to_use = [0, 1], covariance = None, average = None\<rparr>"

definition example_fitted :: mahalanobis_distance where
  "example_fitted =
     example_unfitted\<lparr>covariance := Some (Matrix [[1 / 64, 0], [0, 1 / 64]]),
                      average := Some [1, 1]\<rparr>"

text \<open>The unimodal model on the first band alone, as constructed and as fitted.\<close>

definition one_band_unfitted :: mahalanobis_distance where
  "one_band_unfitted =
     \<lparr>reference_pixels =
        \<lparr>reference_image = example_reference, mask_image = white_annotation 257,
         bands_to_use = [0],
         pixel_values = \<lparr>shape0 = 1, shape1 = 257, rows = [[2, 0, 2, 0] @ replicate 253 1]\<rparr>\<rparr>,
      distance_bands_to_use = [0], covariance = None, average = None\<rparr>"

definition one_band_fitted :: mahalanobis_distance where
  "one_band_fitted =
     one_band_unfitted\<lparr>covariance := Some (Scalar (1 / 64)), average := Some [1]\<rparr>"

text \<open>An inversion routine that knows the inverse of the example's covariance matrix.\<close>

definition example_inv :: "real list list \<Rightarrow> real list list option" where
  "example_inv S = (if S = [[1 / 64, 0], [0, 1 / 64]] then Some [[64, 0], [0, 64]] else None)"

text \<open>
  Target images of one row: two bands and the pixels (1, 1), (2, 1); the same with the
  second pixel changed to (1, 3); a single band with the pixels 1 (the mean of the first
  reference band) and 7; and a single band with one pixel.
\<close>

definition example_target :: "real ndarray3" where
  "example_target = \<lparr>dim0 = 2, dim1 = 1, dim2 = 2, flat = [1, 2, 1, 1]\<rparr>"

definition example_target' :: "real ndarray3" where
  "example_target' = \<lparr>dim0 = 2, dim1 = 1, dim2 = 2, flat = [1, 1, 1, 3]\<rparr>"

definition mean_target :: "real ndarray3" where
  "mean_target = \<lparr>dim0 = 1, dim1 = 1, dim2 = 2, flat = [1, 7]\<rparr>"

definition one_band_target :: "real ndarray3" where
  "one_band_target = \<lparr>dim0 = 1, dim1 = 1, dim2 = 1, flat = [7]\<rparr>"

text \<open>
  A stand-in for scikit-learn's mixture: the fitted object is the vector of its single
  mean, and a sample is scored by minus its squared distance from it. The mixture model
  on the first two bands, as constructed and as fitted.
\<close>

definition example_score_samples :: "real list \<Rightarrow> real list list \<Rightarrow> error + real list" where
  "example_score_samples g X = Inr (map (\<lambda>x. - sum_list (map2 (\<lambda>a b. (a - b) * (a - b)) x g)) X)"

definition example_unfitted_mixture :: "real list gaussian_mixture_model_distance" where
  "example_unfitted_mixture =
     \<lparr>reference_pixels = reference_pixels example_unfitted, distance_bands_to_use = [0, 1],
      n_components = 1, gmm = None\<rparr>"

definition example_mixture :: "real list gaussian_mixture_model_distance" where
  "example_mixture = example_unfitted_mixture\<lparr>gmm := Some [1, 1]\<rparr>"

section \<open>Indexing lemmas\<close>

lemma raster_index_less: "r < nr \<Longrightarrow> c < nc \<Longrightarrow> r * nc + c < nr * (nc::nat)"
proof -
  assume r: "r < nr" and c: "c < nc"
  have "r * nc + c < r * nc + nc" using c by simp
  also have "\<dots> = Suc r * nc" by simp
  also have "\<dots> \<le> nr * nc" using r by (intro mult_le_mono1) simp
  finally show ?thesis .
qed

lemma plane_length: "wf3 a \<Longrightarrow> b < dim0 a \<Longrightarrow> length (plane a b) = dim1 a * dim2 a"
proof -
  assume wf: "wf3 a" and b: "b < dim0 a"
  have "Suc b * (dim1 a * dim2 a) \<le> dim0 a * (dim1 a * dim2 a)"
    using b by (intro mult_le_mono1) simp
  then show ?thesis using wf by (simp add: plane_def wf3_def)
qed

lemma plane_nth_flat:
  "wf3 a \<Longrightarrow> b < dim0 a \<Longrightarrow> p < dim1 a * dim2 a \<Longrightarrow>
     plane a b ! p = flat a ! (b * (dim1 a * dim2 a) + p)"
proof -
  assume wf: "wf3 a" and b: "b < dim0 a" and p: "p < dim1 a * dim2 a"
  have "b * (dim1 a * dim2 a) \<le> dim0 a * (dim1 a * dim2 a)"
    using b by (intro mult_le_mono1) simp
  then have "b * (dim1 a * dim2 a) \<le> length (flat a)" using wf by (simp only: wf3_def)
  then show ?thesis using p by (simp add: plane_def)
qed

lemma plane_nth:
  "wf3 a \<Longrightarrow> b < dim0 a \<Longrightarrow> r < dim1 a \<Longrightarrow> c < dim2 a \<Longrightarrow>
     plane a b ! (r * dim2 a + c) = at3 a b r c"
  by (simp add: plane_nth_flat raster_index_less at3_def)

lemma pixel_mask_of_one_band:
  "dim0 m = 1 \<Longrightarrow> pixel_mask_of lo hi m = Inr (map (\<lambda>v. if v > 127 then 255 else 0) (plane m 0))"
  by (cases lo; cases hi) (simp add: pixel_mask_of_def)

lemma py_index_less: "py_index n i = Some j \<Longrightarrow> j < n"
  by (auto simp: py_index_def split: if_splits)

lemma index_all_Nil [simp]: "index_all n [] = Some []"
  by (simp add: index_all_def)

lemma index_all_Cons:
  "index_all n (b # bs) =
     (case py_index n b of None \<Rightarrow> None
      | Some j \<Rightarrow> (case index_all n bs of None \<Rightarrow> None | Some js \<Rightarrow> Some (j # js)))"
  by (simp add: index_all_def split: option.splits)

lemma index_all_length: "index_all n bs = Some js \<Longrightarrow> length js = length bs"
  by (induction bs arbitrary: js) (auto simp: index_all_Cons split: option.splits)

lemma index_all_nth:
  "index_all n bs = Some js \<Longrightarrow> i < length bs \<Longrightarrow> py_index n (bs ! i) = Some (js ! i)"
proof (induction bs arbitrary: js i)
  case Nil
  then show ?case by simp
next
  case (Cons b bs)
  then show ?case
    by (cases i) (auto simp: index_all_Cons split: option.splits)
qed

lemma index_all_less: "index_all n bs = Some js \<Longrightarrow> j \<in> set js \<Longrightarrow> j < n"
  by (induction bs arbitrary: js) (auto simp: index_all_Cons py_index_less split: option.splits)

lemma those_map_Some:
  "(\<And>x. x \<in> set xs \<Longrightarrow> f x = Some (g x)) \<Longrightarrow> those (map f xs) = Some (map g xs)"
  by (induction xs) auto

lemma py_index_int: "i < n \<Longrightarrow> py_index n (int i) = Some i"
  by (simp add: py_index_def)

lemma index_all_upt: "k \<le> n \<Longrightarrow> index_all n (map int [0..<k]) = Some [0..<k]"
proof -
  assume k: "k \<le> n"
  have "those (map (\<lambda>i. py_index n (int i)) [0..<k]) = Some (map (\<lambda>i. i) [0..<k])"
    using k by (intro those_map_Some) (simp add: py_index_int)
  then show ?thesis by (simp add: index_all_def comp_def)
qed

lemma generate_pixel_mask_Inr:
  assumes "generate_pixel_mask lo hi ref msk bs = Inr vals"
  shows "\<exists>pm js. pixel_mask_of lo hi msk = Inr pm \<and> dim1 msk = dim1 ref \<and> dim2 msk = dim2 ref
           \<and> index_all (dim0 ref) bs = Some js
           \<and> vals = \<lparr>shape0 = length js, shape1 = length (filter (\<lambda>m. m = 255) pm),
                rows = map (\<lambda>j. map snd (filter (\<lambda>(m, v). m = 255) (zip pm (plane ref j)))) js\<rparr>"
proof -
  obtain pm where pm: "pixel_mask_of lo hi msk = Inr pm"
    using assms by (auto simp: generate_pixel_mask_def split: sum.splits)
  have dims: "dim1 msk = dim1 ref \<and> dim2 msk = dim2 ref"
    using assms pm by (auto simp: generate_pixel_mask_def split: if_splits)
  obtain js where js: "index_all (dim0 ref) bs = Some js"
    using assms pm dims by (auto simp: generate_pixel_mask_def Let_def split: option.splits)
  have "\<forall>j \<in> set js. j < dim0 ref" using js by (auto dest: index_all_less)
  then have "map (\<lambda>j. map (\<lambda>b. map snd (filter (\<lambda>(m, v). m = 255) (zip pm (plane ref b)))) [0..<dim0 ref] ! j) js
    = map (\<lambda>j. map snd (filter (\<lambda>(m, v). m = 255) (zip pm (plane ref j)))) js"
    by (intro map_cong) auto
  moreover have "vals = \<lparr>shape0 = length js, shape1 = length (filter (\<lambda>m. m = 255) pm),
      rows = map (\<lambda>j. map (\<lambda>b. map snd (filter (\<lambda>(m, v). m = 255) (zip pm (plane ref b)))) [0..<dim0 ref] ! j) js\<rparr>"
    using assms pm dims js by (simp add: generate_pixel_mask_def Let_def)
  ultimately have "vals = \<lparr>shape0 = length js, shape1 = length (filter (\<lambda>m. m = 255) pm),
      rows = map (\<lambda>j. map snd (filter (\<lambda>(m, v). m = 255) (zip pm (plane ref j)))) js\<rparr>"
    by (simp only:)
  then show ?thesis
    using pm dims js by blast
qed

lemma ReferencePixels_Inr:
  assumes "ReferencePixels ref msk bands = Inr rp"
  shows "\<exists>vals. generate_pixel_mask default_lower_range default_higher_range ref msk
             (initialize_bands ref bands) = Inr vals
           \<and> 100 < shape1 vals
           \<and> rp = \<lparr>reference_image = ref, mask_image = msk,
                   bands_to_use = initialize_bands ref bands, pixel_values = vals\<rparr>"
  using assms
  by (auto simp: ReferencePixels_def Let_def show_statistics_of_pixel_mask_def
      min_annotated_pixels_def split: sum.splits if_splits)

section \<open>Evaluating the example inputs\<close>

lemma masked_all_white:
  "length xs = n \<Longrightarrow> map snd (filter (\<lambda>(m, v). m = (255::int)) (zip (replicate n 255) xs)) = xs"
  by (induction xs arbitrary: n) auto

lemma white_annotation_dims [simp]:
  "dim0 (white_annotation n) = 1" "dim1 (white_annotation n) = 1" "dim2 (white_annotation n) = n"
  by (simp_all add: white_annotation_def)

lemma blank_reference_dims [simp]:
  "dim0 (blank_reference b n) = b" "dim1 (blank_reference b n) = 1" "dim2 (blank_reference b n) = n"
  by (simp_all add: blank_reference_def)

lemma white_annotation_pixel_mask:
  "pixel_mask_of lo hi (white_annotation n) = Inr (replicate n 255)"
  by (simp add: pixel_mask_of_one_band white_annotation_def plane_def)

lemma blank_reference_plane: "j < b \<Longrightarrow> plane (blank_reference b n) j = replicate n 0"
proof -
  assume "j < b"
  then have "Suc j * n \<le> b * n" by (intro mult_le_mono1) simp
  then show ?thesis by (simp add: plane_def blank_reference_def min_def)
qed

lemma blank_sample:
  assumes "k \<le> b"
  shows "generate_pixel_mask lo hi (blank_reference b n) (white_annotation n) (map int [0..<k]) =
     Inr \<lparr>shape0 = k, shape1 = n, rows = replicate k (replicate n 0)\<rparr>"
proof -
  have "map (\<lambda>j. map (\<lambda>i. map snd (filter (\<lambda>(m, v). m = (255::int))
            (zip (replicate n 255) (plane (blank_reference b n) i)))) [0..<b] ! j) [0..<k]
      = map (\<lambda>j. replicate n 0) [0..<k]"
    using assms by (intro map_cong) (auto simp: blank_reference_plane masked_all_white)
  then show ?thesis
    using assms
    by (simp add: generate_pixel_mask_def white_annotation_pixel_mask Let_def index_all_upt
        map_replicate_const)
qed

lemma blank_ReferencePixels:
  "ReferencePixels (blank_reference b n) (white_annotation n) None =
     (if n \<le> 100 then Inl (NotEnoughAnnotatedPixels n)
      else Inr \<lparr>reference_image = blank_reference b n, mask_image = white_annotation n,
                bands_to_use = map int [0..<b - 1],
                pixel_values = \<lparr>shape0 = b - 1, shape1 = n,
                                 rows = replicate (b - 1) (replicate n 0)\<rparr>\<rparr>)"
proof -
  have "initialize_bands (blank_reference b n) None = map int [0..<b - 1]"
    by (simp add: initialize_bands_def)
  then show ?thesis
    by (simp add: ReferencePixels_def blank_sample show_statistics_of_pixel_mask_def
        min_annotated_pixels_def)
qed

lemma pixel_mask_of_Inl: "pixel_mask_of lo hi m = Inl e \<Longrightarrow> e = UnexpectedMaskBands (dim0 m)"
  by (cases lo; cases hi) (auto simp: pixel_mask_of_def split: if_splits)

lemma generate_pixel_mask_Inl:
  "generate_pixel_mask lo hi ref msk bs = Inl e \<Longrightarrow> e = UnexpectedMaskBands (dim0 msk) \<or> e = IndexError"
  by (auto simp: generate_pixel_mask_def Let_def split: sum.splits if_splits option.splits
      dest: pixel_mask_of_Inl)

section \<open>The annotation mask\<close>

text \<open>
  Claim C6. For a one-band annotation image the mask array holds 255 (foreground) at a pixel
  exactly when the pixel's value is strictly greater than 127, and 0 otherwise; so a pixel
  of value 127 is background and a pixel of value 128 is foreground.
\<close>

theorem one_band_mask_threshold:
  assumes "dim0 m = 1" and "wf3 m" and "r < dim1 m" and "c < dim2 m"
  shows "\<exists>pixel_mask. pixel_mask_of lo hi m = Inr pixel_mask
           \<and> length pixel_mask = dim1 m * dim2 m
           \<and> pixel_mask ! (r * dim2 m + c) \<in> {0, 255}
           \<and> (pixel_mask ! (r * dim2 m + c) = 255 \<longleftrightarrow> 127 < at3 m 0 r c)"
proof -
  have p: "r * dim2 m + c < dim1 m * dim2 m" using assms by (simp add: raster_index_less)
  have len: "length (plane m 0) = dim1 m * dim2 m" using assms by (simp add: plane_length)
  show ?thesis
    using assms p len by (simp add: pixel_mask_of_one_band plane_nth)
qed

theorem one_band_mask_threshold_witness:
  "dim0 \<lparr>dim0 = 1, dim1 = 1, dim2 = 2, flat = [127, 128::int]\<rparr> = 1
   \<and> wf3 \<lparr>dim0 = 1, dim1 = 1, dim2 = 2, flat = [127, 128::int]\<rparr>
   \<and> pixel_mask_of default_lower_range default_higher_range
         \<lparr>dim0 = 1, dim1 = 1, dim2 = 2, flat = [127, 128]\<rparr> = Inr [0, 255]
   \<and> at3 \<lparr>dim0 = 1, dim1 = 1, dim2 = 2, flat = [127, 128::int]\<rparr> 0 0 0 = 127
   \<and> at3 \<lparr>dim0 = 1, dim1 = 1, dim2 = 2, flat = [127, 128::int]\<rparr> 0 0 1 = 128"
  using one_band_mask_threshold
    [of "\<lparr>dim0 = 1, dim1 = 1, dim2 = 2, flat = [127, 128]\<rparr>" 0 1
      default_lower_range default_higher_range]
  by (simp add: wf3_def at3_def pixel_mask_of_one_band plane_def)

text \<open>
  What the code computes for a colour annotation image: a pixel is foreground exactly when
  each of its first three band values lies strictly between the two bounds.
\<close>

lemma rgb_mask_strict_box:
  assumes "dim0 m = 3 \<or> dim0 m = 4" and "wf3 m" and "r < dim1 m" and "c < dim2 m"
  shows "\<exists>pixel_mask. pixel_mask_of (l0, l1, l2) (h0, h1, h2) m = Inr pixel_mask
           \<and> length pixel_mask = dim1 m * dim2 m
           \<and> (pixel_mask ! (r * dim2 m + c) = 255 \<longleftrightarrow>
                l0 < at3 m 0 r c \<and> at3 m 0 r c < h0
              \<and> l1 < at3 m 1 r c \<and> at3 m 1 r c < h1
              \<and> l2 < at3 m 2 r c \<and> at3 m 2 r c < h2)"
proof -
  have p: "r * dim2 m + c < dim1 m * dim2 m" using assms by (simp add: raster_index_less)
  have b: "0 < dim0 m" "1 < dim0 m" "2 < dim0 m" using assms(1) by auto
  have len: "length (plane m 0) = dim1 m * dim2 m" "length (plane m 1) = dim1 m * dim2 m"
    "length (plane m 2) = dim1 m * dim2 m"
    using assms(2) b by (simp_all add: plane_length)
  have v: "plane m 0 ! (r * dim2 m + c) = at3 m 0 r c" "plane m 1 ! (r * dim2 m + c) = at3 m 1 r c"
    "plane m 2 ! (r * dim2 m + c) = at3 m 2 r c"
    using assms(2,3,4) b by (simp_all add: plane_nth)
  show ?thesis
    using assms(1) p len v by (auto simp: pixel_mask_of_def)
qed

text \<open>
  Claim C2. For a three-band or four-band annotation image the claim makes the lower bounds
  of the colour box inclusive. The comparisons of lines 45, 47 and 49 are strict, so with
  the default box a pixel of colour (245, 0, 0) is background, and so is pure red
  (255, 0, 0), whose green and blue values are not greater than the lower bound 0; a pixel
  of colour (255, 1, 1) is foreground.
\<close>

theorem rgb_mask_lower_bounds_excluded:
  "pixel_mask_of default_lower_range default_higher_range
     \<lparr>dim0 = 3, dim1 = 1, dim2 = 3, flat = [245, 255, 255,  0, 0, 1,  0, 0, 1]\<rparr>
   = Inr [0, 0, 255]"
  by (simp add: pixel_mask_of_def default_lower_range_def default_higher_range_def plane_def)

section \<open>The sampler\<close>

text \<open>
  Claim C3. The constructor fails with the not-enough-annotated-pixels exception exactly
  when the sample has been extracted and its number \<open>n\<close> of columns, which is the number of
  foreground cells of the mask, is at most 100; it returns a sampler exactly when the
  sample has more than 100 columns. The constructors of the distance models fail in the
  same way, so no model exists on which statistics could be calculated. A mask of 100
  foreground pixels raises, one of 101 does not.
\<close>

theorem insufficient_sample_boundary:
  "(ReferencePixels ref msk bands = Inl (NotEnoughAnnotatedPixels n) \<longleftrightarrow>
      (\<exists>vals pixel_mask.
         generate_pixel_mask default_lower_range default_higher_range ref msk
           (initialize_bands ref bands) = Inr vals
         \<and> pixel_mask_of default_lower_range default_higher_range msk = Inr pixel_mask
         \<and> length (filter (\<lambda>m. m = 255) pixel_mask) = n
         \<and> shape1 vals = n \<and> n \<le> 100))
   \<and> ((\<exists>rp. ReferencePixels ref msk bands = Inr rp) \<longleftrightarrow>
      (\<exists>vals. generate_pixel_mask default_lower_range default_higher_range ref msk
           (initialize_bands ref bands) = Inr vals \<and> 100 < shape1 vals))
   \<and> (MahalanobisDistance ref msk bands = Inl (NotEnoughAnnotatedPixels n) \<longleftrightarrow>
        ReferencePixels ref msk bands = Inl (NotEnoughAnnotatedPixels n))
   \<and> ((\<exists>self. MahalanobisDistance ref msk bands = Inr self) \<longleftrightarrow>
        (\<exists>rp. ReferencePixels ref msk bands = Inr rp))
   \<and> ((GaussianMixtureModelDistance k ref msk bands
          :: error + 'g gaussian_mixture_model_distance) = Inl (NotEnoughAnnotatedPixels n) \<longleftrightarrow>
        ReferencePixels ref msk bands = Inl (NotEnoughAnnotatedPixels n))"
proof -
  let ?g = "generate_pixel_mask default_lower_range default_higher_range ref msk
              (initialize_bands ref bands)"
  have a: "ReferencePixels ref msk bands = Inl (NotEnoughAnnotatedPixels n) \<longleftrightarrow>
      (\<exists>vals pixel_mask. ?g = Inr vals
         \<and> pixel_mask_of default_lower_range default_higher_range msk = Inr pixel_mask
         \<and> length (filter (\<lambda>m. m = 255) pixel_mask) = n
         \<and> shape1 vals = n \<and> n \<le> 100)"
  proof (cases ?g)
    case (Inl e)
    then have "e \<noteq> NotEnoughAnnotatedPixels n" using generate_pixel_mask_Inl by fastforce
    then show ?thesis using Inl by (simp add: ReferencePixels_def)
  next
    case (Inr vals)
    obtain pm where pm: "pixel_mask_of default_lower_range default_higher_range msk = Inr pm"
      and n: "shape1 vals = length (filter (\<lambda>m. m = 255) pm)"
      using generate_pixel_mask_Inr [OF Inr] by auto
    show ?thesis using Inr pm n
      by (auto simp: ReferencePixels_def show_statistics_of_pixel_mask_def
          min_annotated_pixels_def)
  qed
  have b: "(\<exists>rp. ReferencePixels ref msk bands = Inr rp) \<longleftrightarrow> (\<exists>vals. ?g = Inr vals \<and> 100 < shape1 vals)"
    by (cases ?g) (auto simp: ReferencePixels_def show_statistics_of_pixel_mask_def
        min_annotated_pixels_def)
  have c: "MahalanobisDistance ref msk bands = Inl (NotEnoughAnnotatedPixels n) \<longleftrightarrow>
        ReferencePixels ref msk bands = Inl (NotEnoughAnnotatedPixels n)"
    by (auto simp: MahalanobisDistance_def split: sum.splits)
  have d: "(\<exists>self. MahalanobisDistance ref msk bands = Inr self) \<longleftrightarrow>
        (\<exists>rp. ReferencePixels ref msk bands = Inr rp)"
    by (auto simp: MahalanobisDistance_def split: sum.splits)
  have e: "(GaussianMixtureModelDistance k ref msk bands
          :: error + 'g gaussian_mixture_model_distance) = Inl (NotEnoughAnnotatedPixels n) \<longleftrightarrow>
        ReferencePixels ref msk bands = Inl (NotEnoughAnnotatedPixels n)"
    by (auto simp: GaussianMixtureModelDistance_def split: sum.splits)
  show ?thesis using a b c d e by blast
qed

theorem insufficient_sample_boundary_witness:
  "MahalanobisDistance (blank_reference 2 100) (white_annotation 100) None
     = Inl (NotEnoughAnnotatedPixels 100)
   \<and> (\<exists>self. MahalanobisDistance (blank_reference 2 101) (white_annotation 101) None = Inr self)
   \<and> pixel_mask_of default_lower_range default_higher_range (white_annotation 100)
       = Inr (replicate 100 255)
   \<and> pixel_mask_of default_lower_range default_higher_range (white_annotation 101)
       = Inr (replicate 101 255)"
  using insufficient_sample_boundary
      [where ref = "blank_reference 2 100" and msk = "white_annotation 100" and bands = None
         and n = 100 and k = 1 and 'g = unit]
    insufficient_sample_boundary
      [where ref = "blank_reference 2 101" and msk = "white_annotation 101" and bands = None
         and n = 101 and k = 1 and 'g = unit]
  by (simp add: blank_ReferencePixels white_annotation_pixel_mask)

section \<open>The layout of the sample\<close>

lemma zip_by_index:
  "length xs = length ys \<Longrightarrow> zip xs ys = map (\<lambda>p. (xs ! p, ys ! p)) [0..<length ys]"
  by (intro nth_equalityI) auto

lemma masked_by_index:
  assumes "length pm = length xs"
  shows "map snd (filter (\<lambda>(m, v). m = (255::int)) (zip pm xs))
       = map (\<lambda>p. xs ! p) (filter (\<lambda>p. pm ! p = 255) [0..<length xs])"
proof -
  have "map snd (filter (\<lambda>(m, v). m = 255) (map (\<lambda>p. (pm ! p, xs ! p)) [0..<length xs]))
      = map (\<lambda>p. xs ! p) (filter (\<lambda>p. pm ! p = 255) [0..<length xs])"
    by (simp add: filter_map comp_def)
  then show ?thesis using zip_by_index [OF assms] by simp
qed

lemma raster_positions:
  "map (\<lambda>(r, c). r * nc + c) (List.product [0..<nr] [0..<nc]) = [0..<nr * nc]"
proof (induction nr)
  case 0
  then show ?case by simp
next
  case (Suc nr)
  have "map (\<lambda>c. nr * nc + c) [0..<nc] = [nr * nc..<nr * nc + nc]"
    using map_add_upt [of "nr * nc" nc] by (simp add: add.commute)
  then have "map (\<lambda>(r, c). r * nc + c) (map (Pair nr) [0..<nc]) = [nr * nc..<nr * nc + nc]"
    by (simp add: comp_def)
  moreover have "[0..<Suc nr * nc] = [0..<nr * nc] @ [nr * nc..<nr * nc + nc]"
    using upt_add_eq_append [of 0 "nr * nc" nc] by (simp add: add.commute)
  ultimately show ?case using Suc by (simp add: product_concat_map)
qed

lemma pixel_mask_length:
  assumes "wf3 m" and "pixel_mask_of lo hi m = Inr pm"
  shows "length pm = dim1 m * dim2 m"
proof -
  obtain l0 l1 l2 h0 h1 h2 where lo: "lo = (l0, l1, l2)" and hi: "hi = (h0, h1, h2)"
    by (cases lo; cases hi) auto
  consider "dim0 m = 3 \<or> dim0 m = 4" | "dim0 m = 1"
    using assms(2) lo hi by (auto simp: pixel_mask_of_def split: if_splits)
  then show ?thesis
  proof cases
    case 1
    then have "length (plane m 0) = dim1 m * dim2 m" "length (plane m 1) = dim1 m * dim2 m"
      "length (plane m 2) = dim1 m * dim2 m"
      using assms(1) by (auto simp: plane_length)
    then show ?thesis using 1 assms(2) lo hi by (auto simp: pixel_mask_of_def)
  next
    case 2
    then have "length (plane m 0) = dim1 m * dim2 m" using assms(1) by (simp add: plane_length)
    then show ?thesis using 2 assms(2) by (auto simp: pixel_mask_of_one_band)
  qed
qed

lemma masked_plane_raster:
  assumes "wf3 a" and "b < dim0 a" and "length pm = dim1 a * dim2 a"
  shows "map snd (filter (\<lambda>(m, v). m = (255::int)) (zip pm (plane a b)))
       = map (\<lambda>(r, c). at3 a b r c)
           (filter (\<lambda>(r, c). pm ! (r * dim2 a + c) = 255)
              (List.product [0..<dim1 a] [0..<dim2 a]))"
proof -
  let ?nc = "dim2 a" and ?nr = "dim1 a"
  let ?f = "\<lambda>(r, c). r * ?nc + c"
  let ?sel = "filter (\<lambda>(r, c). pm ! (r * ?nc + c) = 255) (List.product [0..<?nr] [0..<?nc])"
  have len: "length (plane a b) = ?nr * ?nc" using assms by (simp add: plane_length)
  have "map snd (filter (\<lambda>(m, v). m = 255) (zip pm (plane a b)))
      = map (\<lambda>p. plane a b ! p) (filter (\<lambda>p. pm ! p = 255) [0..<?nr * ?nc])"
    using masked_by_index [of pm "plane a b"] assms(3) len by simp
  also have "\<dots> = map (\<lambda>p. plane a b ! p)
      (filter (\<lambda>p. pm ! p = 255) (map ?f (List.product [0..<?nr] [0..<?nc])))"
    by (simp only: raster_positions)
  also have "\<dots> = map (\<lambda>(r, c). plane a b ! (r * ?nc + c)) ?sel"
    by (simp add: filter_map comp_def case_prod_unfold)
  also have "\<dots> = map (\<lambda>(r, c). at3 a b r c) ?sel"
    using assms by (intro map_cong) (auto simp: plane_nth)
  finally show ?thesis .
qed

text \<open>
  Claim C7. The extracted sample has one row per selected band and one column per
  foreground cell of the mask: its shape is \<open>(B, N)\<close> with \<open>B\<close> the length of the band
  selection and \<open>N\<close> the number of cells where the mask array is 255; row \<open>i\<close> holds the
  values of the \<open>i\<close>-th selected band (Python indexing of the band axis), and the columns
  run through the foreground cells in raster order, row by row over the spatial grid.
\<close>

theorem sample_layout:
  assumes "generate_pixel_mask lo hi ref msk bs = Inr vals" and "wf3 ref" and "wf3 msk"
  shows "\<exists>pixel_mask js.
           pixel_mask_of lo hi msk = Inr pixel_mask
         \<and> index_all (dim0 ref) bs = Some js
         \<and> shape0 vals = length bs
         \<and> shape1 vals = length (filter (\<lambda>m. m = 255) pixel_mask)
         \<and> length (rows vals) = length bs
         \<and> (\<forall>i < length bs.
               length (rows vals ! i) = shape1 vals
             \<and> rows vals ! i =
                 map (\<lambda>(r, c). at3 ref (js ! i) r c)
                   (filter (\<lambda>(r, c). pixel_mask ! (r * dim2 ref + c) = 255)
                      (List.product [0..<dim1 ref] [0..<dim2 ref])))"
proof -
  obtain pm js where pm: "pixel_mask_of lo hi msk = Inr pm"
    and dims: "dim1 msk = dim1 ref" "dim2 msk = dim2 ref"
    and js: "index_all (dim0 ref) bs = Some js"
    and vals: "vals = \<lparr>shape0 = length js, shape1 = length (filter (\<lambda>m. m = 255) pm),
                rows = map (\<lambda>j. map snd (filter (\<lambda>(m, v). m = 255) (zip pm (plane ref j)))) js\<rparr>"
    using generate_pixel_mask_Inr [OF assms(1)] by blast
  have len_js: "length js = length bs" using js by (rule index_all_length)
  have len_pm: "length pm = dim1 ref * dim2 ref"
    using pixel_mask_length [OF assms(3) pm] dims by simp
  have row: "length (rows vals ! i) = shape1 vals
           \<and> rows vals ! i = map (\<lambda>(r, c). at3 ref (js ! i) r c)
                   (filter (\<lambda>(r, c). pm ! (r * dim2 ref + c) = 255)
                      (List.product [0..<dim1 ref] [0..<dim2 ref]))"
    if i: "i < length bs" for i
  proof -
    have j: "js ! i < dim0 ref" using js i len_js by (auto intro: index_all_less)
    have lenp: "length (plane ref (js ! i)) = length pm"
      using assms(2) j len_pm by (simp add: plane_length)
    have "length (map snd (filter (\<lambda>(m, v). m = 255) (zip pm (plane ref (js ! i)))))
        = length (filter (\<lambda>m. m = 255) pm)"
    proof -
      have "map fst (filter (\<lambda>(m, v). m = 255) (zip pm (plane ref (js ! i))))
          = filter (\<lambda>m. m = 255) (map fst (zip pm (plane ref (js ! i))))"
        by (simp add: filter_map comp_def case_prod_unfold)
      then have "length (filter (\<lambda>(m, v). m = 255) (zip pm (plane ref (js ! i))))
          = length (filter (\<lambda>m. m = 255) pm)"
        using lenp by (metis length_map map_fst_zip)
      then show ?thesis by simp
    qed
    then show ?thesis
      using i len_js vals masked_plane_raster [OF assms(2) j len_pm] by simp
  qed
  have s0: "shape0 vals = length bs" and s1: "shape1 vals = length (filter (\<lambda>m. m = 255) pm)"
    and lr: "length (rows vals) = length bs"
    using vals len_js by simp_all
  show ?thesis
    using pm js s0 s1 lr row by blast
qed


theorem sample_layout_witness:
  "generate_pixel_mask default_lower_range default_higher_range
     \<lparr>dim0 = 2, dim1 = 2, dim2 = 2, flat = [1, 2, 3, 4, 5, 6, 7, 8]\<rparr>
     \<lparr>dim0 = 1, dim1 = 2, dim2 = 2, flat = [255, 0, 127, 200]\<rparr> [1, 0]
   = Inr \<lparr>shape0 = 2, shape1 = 2, rows = [[5, 8], [1, 4]]\<rparr>
   \<and> wf3 \<lparr>dim0 = 2, dim1 = 2, dim2 = 2, flat = [1, 2, 3, 4, 5, 6, 7, 8::real]\<rparr>
   \<and> wf3 \<lparr>dim0 = 1, dim1 = 2, dim2 = 2, flat = [255, 0, 127, 200::int]\<rparr>
   \<and> pixel_mask_of default_lower_range default_higher_range
         \<lparr>dim0 = 1, dim1 = 2, dim2 = 2, flat = [255, 0, 127, 200]\<rparr> = Inr [255, 0, 0, 255]"
  using sample_layout [of default_lower_range default_higher_range
      "\<lparr>dim0 = 2, dim1 = 2, dim2 = 2, flat = [1, 2, 3, 4, 5, 6, 7, 8]\<rparr>"
      "\<lparr>dim0 = 1, dim1 = 2, dim2 = 2, flat = [255, 0, 127, 200]\<rparr>" "[1, 0]"]
  by (simp add: generate_pixel_mask_def pixel_mask_of_one_band plane_def wf3_def Let_def
      index_all_Cons py_index_def)

section \<open>The default band selection\<close>

lemma sample_row_raster:
  assumes "generate_pixel_mask lo hi ref msk bs = Inr vals" and "wf3 ref" and "wf3 msk"
    and "pixel_mask_of lo hi msk = Inr pm" and "index_all (dim0 ref) bs = Some js"
    and "i < length bs"
  shows "rows vals ! i =
     map (\<lambda>(r, c). at3 ref (js ! i) r c)
       (filter (\<lambda>(r, c). pm ! (r * dim2 ref + c) = 255)
          (List.product [0..<dim1 ref] [0..<dim2 ref]))"
proof -
  obtain pm' js' where pm': "pixel_mask_of lo hi msk = Inr pm'"
    and dims: "dim1 msk = dim1 ref" "dim2 msk = dim2 ref"
    and js': "index_all (dim0 ref) bs = Some js'"
    and vals: "vals = \<lparr>shape0 = length js', shape1 = length (filter (\<lambda>m. m = 255) pm'),
                rows = map (\<lambda>j. map snd (filter (\<lambda>(m, v). m = 255) (zip pm' (plane ref j)))) js'\<rparr>"
    using generate_pixel_mask_Inr [OF assms(1)] by blast
  have e: "pm' = pm" "js' = js" using pm' js' assms(4,5) by simp_all
  have len_js: "length js = length bs" using assms(5) by (rule index_all_length)
  have len_pm: "length pm = dim1 ref * dim2 ref"
    using pixel_mask_length [OF assms(3,4)] dims by simp
  have j: "js ! i < dim0 ref" using assms(5,6) len_js by (auto intro: index_all_less)
  have "rows vals ! i = map snd (filter (\<lambda>(m, v). m = 255) (zip pm (plane ref (js ! i))))"
    using vals e assms(6) len_js by simp
  then show ?thesis using masked_plane_raster [OF assms(2) j len_pm] by simp
qed

lemma four_band_reference_planes:
  "plane four_band_reference 0 = replicate 101 1"
  "plane four_band_reference (Suc 0) = replicate 101 2"
  "plane four_band_reference (Suc (Suc 0)) = replicate 101 3"
  by (simp_all add: plane_def four_band_reference_def)

lemma four_band_ReferencePixels:
  "ReferencePixels four_band_reference (white_annotation 101) None =
     Inr \<lparr>reference_image = four_band_reference, mask_image = white_annotation 101,
          bands_to_use = [0, 1, 2],
          pixel_values = \<lparr>shape0 = 3, shape1 = 101,
             rows = [replicate 101 1, replicate 101 2, replicate 101 3]\<rparr>\<rparr>"
proof -
  have d: "dim0 four_band_reference = 4" "dim1 four_band_reference = 1"
    "dim2 four_band_reference = 101"
    by (simp_all add: four_band_reference_def)
  have b: "initialize_bands four_band_reference None = [0, 1, 2]"
    by (simp add: initialize_bands_def d upt_conv_Cons)
  have g: "generate_pixel_mask default_lower_range default_higher_range four_band_reference
      (white_annotation 101) [0, 1, 2] =
        Inr \<lparr>shape0 = 3, shape1 = 101, rows = [replicate 101 1, replicate 101 2, replicate 101 3]\<rparr>"
    by (simp add: generate_pixel_mask_def white_annotation_pixel_mask Let_def d index_all_Cons
        py_index_def upt_conv_Cons masked_all_white four_band_reference_planes)
  show ?thesis
    by (simp add: ReferencePixels_def b g show_statistics_of_pixel_mask_def
        min_annotated_pixels_def)
qed

text \<open>
  Claim C5. When no band selection is supplied, the sampler uses the band indices
  \<open>0, ..., total - 2\<close>: all indices of the reference image except the highest, in ascending
  order; the sample has \<open>total - 1\<close> rows, and row \<open>i\<close> holds the values of band \<open>i\<close> of the
  reference image at the foreground cells of the mask, in raster order. For a four-band
  reference image the rows are the bands 0, 1 and 2.
\<close>

theorem default_band_selection:
  assumes "ReferencePixels ref msk None = Inr rp" and "wf3 ref" and "wf3 msk"
  shows "bands_to_use rp = map int [0..<dim0 ref - 1]
       \<and> set (bands_to_use rp) = {i. 0 \<le> i \<and> i < int (dim0 ref)} - {int (dim0 ref) - 1}
       \<and> sorted_wrt (<) (bands_to_use rp)
       \<and> shape0 (pixel_values rp) = dim0 ref - 1
       \<and> length (rows (pixel_values rp)) = dim0 ref - 1
       \<and> (\<exists>pixel_mask.
             pixel_mask_of default_lower_range default_higher_range msk = Inr pixel_mask
           \<and> (\<forall>i < dim0 ref - 1.
                 rows (pixel_values rp) ! i =
                   map (\<lambda>(r, c). at3 ref i r c)
                     (filter (\<lambda>(r, c). pixel_mask ! (r * dim2 ref + c) = 255)
                        (List.product [0..<dim1 ref] [0..<dim2 ref]))))"
proof -
  let ?bs = "map int [0..<dim0 ref - 1]"
  obtain vals where g: "generate_pixel_mask default_lower_range default_higher_range ref msk ?bs = Inr vals"
    and rp: "rp = \<lparr>reference_image = ref, mask_image = msk, bands_to_use = ?bs, pixel_values = vals\<rparr>"
    using ReferencePixels_Inr [OF assms(1)] by (auto simp: initialize_bands_def)
  obtain pm js where pm: "pixel_mask_of default_lower_range default_higher_range msk = Inr pm"
    and js: "index_all (dim0 ref) ?bs = Some js"
    and vals: "shape0 vals = length js" "length (rows vals) = length js"
    using generate_pixel_mask_Inr [OF g] by auto
  have js_upt: "js = [0..<dim0 ref - 1]" using js index_all_upt [of "dim0 ref - 1" "dim0 ref"] by simp
  have len: "length js = dim0 ref - 1" using js_upt by simp
  have set: "set ?bs = {i. 0 \<le> i \<and> i < int (dim0 ref)} - {int (dim0 ref) - 1}"
  proof (rule set_eqI)
    fix i :: int
    show "i \<in> set ?bs \<longleftrightarrow> i \<in> {i. 0 \<le> i \<and> i < int (dim0 ref)} - {int (dim0 ref) - 1}"
    proof
      assume "i \<in> set ?bs"
      then show "i \<in> {i. 0 \<le> i \<and> i < int (dim0 ref)} - {int (dim0 ref) - 1}" by auto
    next
      assume a: "i \<in> {i. 0 \<le> i \<and> i < int (dim0 ref)} - {int (dim0 ref) - 1}"
      then have "nat i < dim0 ref - 1" by auto
      moreover have "i = int (nat i)" using a by simp
      ultimately show "i \<in> set ?bs" by (metis atLeastLessThan_iff image_eqI le0 set_map set_upt)
    qed
  qed
  have srt: "sorted_wrt (<) ?bs" by (simp add: sorted_wrt_map)
  have row: "rows vals ! i =
      map (\<lambda>(r, c). at3 ref i r c)
        (filter (\<lambda>(r, c). pm ! (r * dim2 ref + c) = 255)
           (List.product [0..<dim1 ref] [0..<dim2 ref]))"
    if i: "i < dim0 ref - 1" for i
    using sample_row_raster [OF g assms(2,3) pm js, of i] i js_upt by simp
  have "bands_to_use rp = ?bs" "shape0 (pixel_values rp) = dim0 ref - 1"
    "length (rows (pixel_values rp)) = dim0 ref - 1" "pixel_values rp = vals"
    using rp vals len by simp_all
  then show ?thesis using set srt pm row by auto
qed

theorem default_band_selection_witness:
  "ReferencePixels four_band_reference (white_annotation 101) None =
     Inr \<lparr>reference_image = four_band_reference, mask_image = white_annotation 101,
          bands_to_use = [0, 1, 2],
          pixel_values = \<lparr>shape0 = 3, shape1 = 101,
             rows = [replicate 101 1, replicate 101 2, replicate 101 3]\<rparr>\<rparr>
   \<and> wf3 four_band_reference \<and> wf3 (white_annotation 101)
   \<and> at3 four_band_reference 0 0 0 = 1 \<and> at3 four_band_reference 1 0 0 = 2
   \<and> at3 four_band_reference 2 0 0 = 3 \<and> at3 four_band_reference 3 0 0 = 4"
proof -
  have w: "wf3 four_band_reference" "wf3 (white_annotation 101)"
    by (simp_all add: wf3_def four_band_reference_def white_annotation_def)
  have a: "at3 four_band_reference 0 0 0 = 1" "at3 four_band_reference 1 0 0 = 2"
    "at3 four_band_reference 2 0 0 = 3" "at3 four_band_reference 3 0 0 = 4"
    by (simp_all add: at3_def four_band_reference_def nth_append)
  show ?thesis
    using default_band_selection [OF four_band_ReferencePixels w] four_band_ReferencePixels w a
    by simp
qed

section \<open>Scoring before fitting\<close>

lemma example_reference_planes:
  "plane example_reference 0 = [2, 0, 2, 0] @ replicate 253 1"
  "plane example_reference 1 = [2, 2, 0, 0] @ replicate 253 1"
  "plane example_reference (Suc 0) = [2, 2, 0, 0] @ replicate 253 1"
  by (simp_all add: plane_def example_reference_def)

lemma example_reference_dims:
  "dim0 example_reference = 3" "dim1 example_reference = 1" "dim2 example_reference = 257"
  by (simp_all add: example_reference_def)

lemma example_ReferencePixels:
  "ReferencePixels example_reference (white_annotation 257) None =
     Inr \<lparr>reference_image = example_reference, mask_image = white_annotation 257,
          bands_to_use = [0, 1], pixel_values = example_sample\<rparr>"
proof -
  have b: "initialize_bands example_reference None = [0, 1]"
    by (simp add: initialize_bands_def example_reference_dims upt_conv_Cons)
  have g: "generate_pixel_mask default_lower_range default_higher_range example_reference
      (white_annotation 257) [0, 1] = Inr example_sample"
    by (simp add: generate_pixel_mask_def white_annotation_pixel_mask Let_def
        example_reference_dims index_all_Cons py_index_def upt_conv_Cons masked_all_white
        example_sample_def example_reference_planes)
  show ?thesis
    by (simp add: ReferencePixels_def b g show_statistics_of_pixel_mask_def
        min_annotated_pixels_def example_sample_def)
qed

lemma example_MahalanobisDistance:
  "MahalanobisDistance example_reference (white_annotation 257) None = Inr example_unfitted"
  by (simp add: MahalanobisDistance_def example_ReferencePixels example_unfitted_def)

lemma example_GaussianMixtureModelDistance:
  "GaussianMixtureModelDistance 1 example_reference (white_annotation 257) None
     = Inr example_unfitted_mixture"
  by (simp add: GaussianMixtureModelDistance_def example_ReferencePixels
      example_unfitted_mixture_def example_unfitted_def)

lemma select_pixels_Inr:
  "select_pixels img bs = Inr pixels \<longleftrightarrow>
     (\<exists>js. index_all (dim0 img) bs = Some js \<and> js \<noteq> []
        \<and> pixels = map (\<lambda>p. map (\<lambda>j. plane img j ! p) js) [0..<dim1 img * dim2 img])"
  by (auto simp: select_pixels_def Let_def comp_def split: option.splits)

lemma select_pixels_Inl:
  "select_pixels img bs = Inl e \<Longrightarrow> e = IndexError \<or> e = ValueError"
  by (auto simp: select_pixels_def Let_def split: option.splits if_splits)

text \<open>
  Claim C9, as amended. The program has no check of its own for scoring before fitting.
  On a model of either kind that its constructor has returned and that has not been
  fitted, scoring always fails, and it fails with the AttributeError of the missing
  attribute (\<open>covariance\<close> of the unimodal model, \<open>gmm\<close> of the mixture model; this is the
  not-fitted error) exactly when the image has every selected band and the selection is
  not empty. On an image that lacks a selected band the band indexing of line 135 (168)
  fails first, with IndexError.
\<close>

theorem score_before_fit:
  fixes mixture :: "'g gaussian_mixture_model_distance"
  shows "(MahalanobisDistance ref msk bands = Inr self \<longrightarrow>
            (\<exists>e. calculate_distance lapack_inv self img = Inl e)
          \<and> (calculate_distance lapack_inv self img = Inl AttributeError \<longleftrightarrow>
               (\<exists>js. index_all (dim0 img) (distance_bands_to_use self) = Some js \<and> js \<noteq> []))
          \<and> (index_all (dim0 img) (distance_bands_to_use self) = None \<longleftrightarrow>
               calculate_distance lapack_inv self img = Inl IndexError))
       \<and> (GaussianMixtureModelDistance k ref msk bands = Inr mixture \<longrightarrow>
            (\<exists>e. gmm_calculate_distance score_samples mixture img = Inl e)
          \<and> (gmm_calculate_distance score_samples mixture img = Inl AttributeError \<longleftrightarrow>
               (\<exists>js. index_all (dim0 img) (distance_bands_to_use mixture) = Some js \<and> js \<noteq> []))
          \<and> (index_all (dim0 img) (distance_bands_to_use mixture) = None \<longleftrightarrow>
               gmm_calculate_distance score_samples mixture img = Inl IndexError))"
proof (intro conjI impI)
  assume m: "MahalanobisDistance ref msk bands = Inr self"
  have c: "covariance self = None"
    using m by (auto simp: MahalanobisDistance_def split: sum.splits)
  have u: "(\<exists>e. calculate_distance lapack_inv self img = Inl e)
       \<and> (calculate_distance lapack_inv self img = Inl AttributeError \<longleftrightarrow>
            (\<exists>js. index_all (dim0 img) (distance_bands_to_use self) = Some js \<and> js \<noteq> []))
       \<and> (index_all (dim0 img) (distance_bands_to_use self) = None \<longleftrightarrow>
            calculate_distance lapack_inv self img = Inl IndexError)"
  proof (cases "select_pixels img (distance_bands_to_use self)")
    case (Inl e)
    then show ?thesis
      by (auto simp: calculate_distance_def select_pixels_def Let_def split: option.splits if_splits)
  next
    case (Inr pixels)
    then obtain js where js: "index_all (dim0 img) (distance_bands_to_use self) = Some js" "js \<noteq> []"
      by (auto simp: select_pixels_Inr)
    have "calculate_distance lapack_inv self img = Inl AttributeError"
      by (simp add: calculate_distance_def Inr c)
    then show ?thesis using js by simp
  qed
  show "\<exists>e. calculate_distance lapack_inv self img = Inl e" using u by blast
  show "calculate_distance lapack_inv self img = Inl AttributeError \<longleftrightarrow>
            (\<exists>js. index_all (dim0 img) (distance_bands_to_use self) = Some js \<and> js \<noteq> [])"
    using u by blast
  show "index_all (dim0 img) (distance_bands_to_use self) = None \<longleftrightarrow>
            calculate_distance lapack_inv self img = Inl IndexError"
    using u by blast
next
  assume m: "GaussianMixtureModelDistance k ref msk bands = Inr mixture"
  have c: "gmm mixture = None"
    using m by (auto simp: GaussianMixtureModelDistance_def split: sum.splits)
  have u: "(\<exists>e. gmm_calculate_distance score_samples mixture img = Inl e)
       \<and> (gmm_calculate_distance score_samples mixture img = Inl AttributeError \<longleftrightarrow>
            (\<exists>js. index_all (dim0 img) (distance_bands_to_use mixture) = Some js \<and> js \<noteq> []))
       \<and> (index_all (dim0 img) (distance_bands_to_use mixture) = None \<longleftrightarrow>
            gmm_calculate_distance score_samples mixture img = Inl IndexError)"
  proof (cases "select_pixels img (distance_bands_to_use mixture)")
    case (Inl e)
    then show ?thesis
      by (auto simp: gmm_calculate_distance_def select_pixels_def Let_def
          split: option.splits if_splits)
  next
    case (Inr pixels)
    then obtain js where js: "index_all (dim0 img) (distance_bands_to_use mixture) = Some js" "js \<noteq> []"
      by (auto simp: select_pixels_Inr)
    have "gmm_calculate_distance score_samples mixture img = Inl AttributeError"
      by (simp add: gmm_calculate_distance_def Inr c)
    then show ?thesis using js by simp
  qed
  show "\<exists>e. gmm_calculate_distance score_samples mixture img = Inl e" using u by blast
  show "gmm_calculate_distance score_samples mixture img = Inl AttributeError \<longleftrightarrow>
            (\<exists>js. index_all (dim0 img) (distance_bands_to_use mixture) = Some js \<and> js \<noteq> [])"
    using u by blast
  show "index_all (dim0 img) (distance_bands_to_use mixture) = None \<longleftrightarrow>
            gmm_calculate_distance score_samples mixture img = Inl IndexError"
    using u by blast
qed

theorem score_before_fit_witness:
  "MahalanobisDistance example_reference (white_annotation 257) None = Inr example_unfitted
   \<and> GaussianMixtureModelDistance 1 example_reference (white_annotation 257) None
       = Inr example_unfitted_mixture
   \<and> index_all (dim0 example_target) (distance_bands_to_use example_unfitted) = Some [0, 1]
   \<and> index_all (dim0 example_target) (distance_bands_to_use example_unfitted_mixture) = Some [0, 1]
   \<and> calculate_distance example_inv example_unfitted example_target = Inl AttributeError
   \<and> gmm_calculate_distance example_score_samples example_unfitted_mixture example_target
       = Inl AttributeError
   \<and> index_all (dim0 one_band_target) (distance_bands_to_use example_unfitted_mixture) = None
   \<and> gmm_calculate_distance example_score_samples example_unfitted_mixture one_band_target
       = Inl IndexError"
proof -
  have b: "index_all (dim0 example_target) (distance_bands_to_use example_unfitted) = Some [0, 1]"
    "index_all (dim0 example_target) (distance_bands_to_use example_unfitted_mixture) = Some [0, 1]"
    "index_all (dim0 one_band_target) (distance_bands_to_use example_unfitted_mixture) = None"
    by (simp_all add: example_unfitted_def example_unfitted_mixture_def example_target_def
        one_band_target_def index_all_Cons py_index_def)
  show ?thesis
    using score_before_fit [where ref = example_reference and msk = "white_annotation 257"
        and bands = None and self = example_unfitted and k = 1
        and mixture = example_unfitted_mixture and lapack_inv = example_inv
        and score_samples = example_score_samples and img = example_target]
      score_before_fit [where ref = example_reference and msk = "white_annotation 257"
        and bands = None and self = example_unfitted and k = 1
        and mixture = example_unfitted_mixture and lapack_inv = example_inv
        and score_samples = example_score_samples and img = one_band_target]
      example_MahalanobisDistance example_GaussianMixtureModelDistance b
    by simp
qed

text \<open>
  The claim as stated, for any image, fails on an image with a single band: the unfitted
  example model selects the bands 0 and 1, and the error is IndexError.
\<close>

theorem score_before_fit_counterexample:
  "MahalanobisDistance example_reference (white_annotation 257) None = Inr example_unfitted
   \<and> calculate_distance example_inv example_unfitted one_band_target = Inl IndexError
   \<and> IndexError \<noteq> AttributeError"
  by (simp add: example_MahalanobisDistance calculate_distance_def select_pixels_def
      example_unfitted_def one_band_target_def index_all_Cons py_index_def)

section \<open>Fitted models\<close>

lemma calculate_distance_Inr:
  assumes "index_all (dim0 img) (distance_bands_to_use self) = Some js" and "js \<noteq> []"
    and "covariance self = Some cv" and "np_linalg_inv lapack_inv cv = Inr P"
    and "average self = Some avg"
  shows "calculate_distance lapack_inv self img =
     Inr \<lparr>dim0 = 1, dim1 = dim1 img, dim2 = dim2 img,
          flat = map (\<lambda>p. np_sqrt (sum_list (map2 (*)
                    (map2 (-) (map (\<lambda>j. plane img j ! p) js) avg)
                    (matmul_row (map2 (-) (map (\<lambda>j. plane img j ! p) js) avg) P))))
                   [0..<dim1 img * dim2 img]\<rparr>"
  using assms by (simp add: calculate_distance_def select_pixels_def Let_def comp_def)

lemma pixel_vector_plane:
  assumes "wf3 img" and "index_all (dim0 img) bs = Some js" and "r < dim1 img" and "c < dim2 img"
  shows "map (\<lambda>j. plane img j ! (r * dim2 img + c)) js = pixel_vector img js r c"
  unfolding pixel_vector_def
  using assms by (intro map_cong refl plane_nth) (auto dest: index_all_less)

lemma covariance_table_explicit:
  "covariance_table vals =
     map (\<lambda>ri. map (\<lambda>rj.
            sum_list (map2 (*) (map (\<lambda>x. x - sum_list ri / real (shape1 vals)) ri)
                                (map (\<lambda>x. x - sum_list rj / real (shape1 vals)) rj))
              * (1 / real (shape1 vals - 1))) (rows vals)) (rows vals)"
proof -
  have z: "map2 (\<lambda>row a. map (\<lambda>x. x - a) row) (rows vals) (row_means vals)
      = map (\<lambda>row. map (\<lambda>x. x - sum_list row / real (shape1 vals)) row) (rows vals)"
    by (simp add: row_means_def zip_map2 zip_same_conv_map comp_def)
  show ?thesis
    unfolding covariance_table_def Let_def z by (simp add: comp_def)
qed

text \<open>
  With a single selected band the covariance is the squeezed scalar, and scoring stops in
  \<open>np.linalg.inv\<close> on every image that has the band.
\<close>

lemma one_band_covariance: "length (rows vals) = 1 \<Longrightarrow> \<exists>v. np_cov vals = Scalar v"
proof -
  assume "length (rows vals) = 1"
  then obtain row where "rows vals = [row]" by (cases "rows vals") auto
  then show ?thesis
    by (simp add: np_cov_def covariance_table_explicit squeeze_def)
qed

lemma one_band_model_cannot_score:
  assumes "MahalanobisDistance ref msk bands = Inr self0"
    and "length (distance_bands_to_use self0) = 1"
    and "initialize self0 = Inr self"
    and "index_all (dim0 img) (distance_bands_to_use self) = Some js"
  shows "calculate_distance lapack_inv self img = Inl LinAlgError"
proof -
  obtain rp where rp: "ReferencePixels ref msk bands = Inr rp"
    and self0: "self0 = \<lparr>reference_pixels = rp, distance_bands_to_use = bands_to_use rp,
                         covariance = None, average = None\<rparr>"
    using assms(1) by (auto simp: MahalanobisDistance_def split: sum.splits)
  obtain vals where g: "generate_pixel_mask default_lower_range default_higher_range ref msk
             (initialize_bands ref bands) = Inr vals"
    and rp': "rp = \<lparr>reference_image = ref, mask_image = msk,
                   bands_to_use = initialize_bands ref bands, pixel_values = vals\<rparr>"
    using ReferencePixels_Inr [OF rp] by blast
  obtain ks where ks: "index_all (dim0 ref) (initialize_bands ref bands) = Some ks"
    and lr: "length (rows vals) = length ks"
    using generate_pixel_mask_Inr [OF g] by auto
  have "length (rows (pixel_values (reference_pixels self0))) = 1"
    using index_all_length [OF ks] lr assms(2) self0 rp' by simp
  then obtain v where v: "np_cov (pixel_values (reference_pixels self0)) = Scalar v"
    using one_band_covariance by blast
  have s: "covariance self = Some (Scalar v)" "distance_bands_to_use self = distance_bands_to_use self0"
    using assms(3) v
    by (auto simp: initialize_def calculate_statistics_def Let_def split: sum.splits)
  have "js \<noteq> []" using index_all_length [OF assms(4)] s(2) assms(2) by auto
  then show ?thesis
    using assms(4) s(1)
    by (simp add: calculate_distance_def select_pixels_def np_linalg_inv_def Let_def)
qed

section \<open>The fitted examples\<close>

lemma example_row_means: "row_means example_sample = [1, 1]"
  by (simp add: row_means_def example_sample_def sum_list_replicate)

lemma example_cov: "np_cov example_sample = Matrix [[1 / 64, 0], [0, 1 / 64]]"
  by (simp add: np_cov_def covariance_table_def squeeze_def example_row_means Let_def)
    (simp add: example_sample_def sum_list_replicate)

lemma example_initialize: "initialize example_unfitted = Inr example_fitted"
  by (simp add: initialize_def calculate_statistics_def np_average_def example_unfitted_def
      example_fitted_def example_cov example_row_means)
    (simp add: example_sample_def)

lemma example_fitted_fields:
  "covariance example_fitted = Some (Matrix [[1 / 64, 0], [0, 1 / 64]])"
  "average example_fitted = Some [1, 1]"
  "distance_bands_to_use example_fitted = [0, 1]"
  by (simp_all add: example_fitted_def example_unfitted_def)

lemma example_wf:
  "wf3 example_reference" "wf3 (white_annotation 257)" "wf3 example_target" "wf3 example_target'"
  by (simp_all add: wf3_def example_reference_def white_annotation_def example_target_def
      example_target'_def)

lemma example_target_bands:
  "index_all (dim0 example_target) (distance_bands_to_use example_fitted) = Some [0, 1]"
  "index_all (dim0 example_target') (distance_bands_to_use example_fitted) = Some [0, 1]"
  by (simp_all add: example_fitted_fields example_target_def example_target'_def index_all_Cons
      py_index_def)

lemma example_linalg_inv:
  "np_linalg_inv example_inv (Matrix [[1 / 64, 0], [0, 1 / 64]]) = Inr [[64, 0], [0, 64]]"
  by (simp add: np_linalg_inv_def example_inv_def)

lemma example_scores:
  "calculate_distance example_inv example_fitted example_target =
     Inr \<lparr>dim0 = 1, dim1 = 1, dim2 = 2, flat = [Some 0, Some 8]\<rparr>"
proof -
  have s: "sqrt 64 = 8" using real_sqrt_abs [of 8] by simp
  show ?thesis
    by (subst calculate_distance_Inr [OF example_target_bands(1) _ example_fitted_fields(1)
          example_linalg_inv example_fitted_fields(2)])
      (simp_all add: example_target_def plane_def matmul_row_def np_sqrt_def upt_conv_Cons s)
qed

lemma example_scores':
  "calculate_distance example_inv example_fitted example_target' =
     Inr \<lparr>dim0 = 1, dim1 = 1, dim2 = 2, flat = [Some 0, Some 16]\<rparr>"
proof -
  have s: "sqrt 256 = 16" using real_sqrt_abs [of 16] by simp
  show ?thesis
    by (subst calculate_distance_Inr [OF example_target_bands(2) _ example_fitted_fields(1)
          example_linalg_inv example_fitted_fields(2)])
      (simp_all add: example_target'_def plane_def matmul_row_def np_sqrt_def upt_conv_Cons s)
qed

lemma example_mixture_scores:
  "gmm_calculate_distance example_score_samples example_mixture example_target =
     Inr \<lparr>dim0 = 1, dim1 = 1, dim2 = 2, flat = [0, - 1]\<rparr>"
  "gmm_calculate_distance example_score_samples example_mixture example_target' =
     Inr \<lparr>dim0 = 1, dim1 = 1, dim2 = 2, flat = [0, - 4]\<rparr>"
  by (simp_all add: gmm_calculate_distance_def select_pixels_def example_mixture_def
      example_unfitted_mixture_def example_score_samples_def example_target_def
      example_target'_def index_all_Cons py_index_def plane_def upt_conv_Cons Let_def)

lemma one_band_MahalanobisDistance:
  "MahalanobisDistance example_reference (white_annotation 257) (Some [0]) = Inr one_band_unfitted"
proof -
  have g: "generate_pixel_mask default_lower_range default_higher_range example_reference
      (white_annotation 257) [0] =
        Inr \<lparr>shape0 = 1, shape1 = 257, rows = [[2, 0, 2, 0] @ replicate 253 1]\<rparr>"
    by (simp add: generate_pixel_mask_def white_annotation_pixel_mask Let_def
        example_reference_dims index_all_Cons py_index_def upt_conv_Cons masked_all_white
        example_reference_planes)
  show ?thesis
    by (simp add: MahalanobisDistance_def ReferencePixels_def initialize_bands_def g
        show_statistics_of_pixel_mask_def min_annotated_pixels_def one_band_unfitted_def)
qed

lemma one_band_initialize: "initialize one_band_unfitted = Inr one_band_fitted"
  by (simp add: initialize_def calculate_statistics_def np_average_def np_cov_def
      covariance_table_def squeeze_def row_means_def one_band_unfitted_def one_band_fitted_def
      Let_def sum_list_replicate)

lemma one_band_bands:
  "index_all (dim0 one_band_target) (distance_bands_to_use one_band_fitted) = Some [0]"
  "index_all (dim0 mean_target) (distance_bands_to_use one_band_fitted) = Some [0]"
  by (simp_all add: one_band_fitted_def one_band_unfitted_def one_band_target_def
      mean_target_def index_all_Cons py_index_def)

lemma one_band_length: "length (distance_bands_to_use one_band_unfitted) = 1"
  by (simp add: one_band_unfitted_def)

section \<open>Scoring with a single selected band\<close>

text \<open>
  Claim C1. The claim promises the array of Mahalanobis distances for every fitted
  unimodal model whose covariance is invertible and every target image that has the
  selected bands. The model fitted on the first band of the example alone has the variance
  1/64, which is invertible, but \<open>np.cov\<close> has squeezed it to a 0-dimensional array:
  \<open>calculate_distance\<close> raises LinAlgError on a target image that has the band, whatever the
  inversion routine, and returns no array.
\<close>

theorem one_band_model_raises:
  "MahalanobisDistance example_reference (white_annotation 257) (Some [0]) = Inr one_band_unfitted
   \<and> initialize one_band_unfitted = Inr one_band_fitted
   \<and> covariance one_band_fitted = Some (Scalar (1 / 64))
   \<and> index_all (dim0 one_band_target) (distance_bands_to_use one_band_fitted) = Some [0]
   \<and> calculate_distance lapack_inv one_band_fitted one_band_target = Inl LinAlgError"
  using one_band_model_cannot_score [OF one_band_MahalanobisDistance one_band_length
      one_band_initialize one_band_bands(1)]
  by (simp add: one_band_MahalanobisDistance one_band_initialize one_band_bands)
    (simp add: one_band_fitted_def)

text \<open>
  Claim C4. The claim promises a non-negative output at every pixel, and 0 at a pixel whose
  vector of selected-band values equals the fitted mean. The first pixel of \<open>mean_target\<close>
  has the value 1, the mean of the model fitted on the first band of the example alone
  (its variance 1/64 is invertible); \<open>calculate_distance\<close> raises LinAlgError, whatever the
  inversion routine, and gives that pixel no value. This is the defect of claim C1.
\<close>

theorem one_band_model_no_distance_at_mean:
  "MahalanobisDistance example_reference (white_annotation 257) (Some [0]) = Inr one_band_unfitted
   \<and> initialize one_band_unfitted = Inr one_band_fitted
   \<and> average one_band_fitted = Some [1]
   \<and> index_all (dim0 mean_target) (distance_bands_to_use one_band_fitted) = Some [0]
   \<and> pixel_vector mean_target [0] 0 0 = [1]
   \<and> calculate_distance lapack_inv one_band_fitted mean_target = Inl LinAlgError"
  using one_band_model_cannot_score [OF one_band_MahalanobisDistance one_band_length
      one_band_initialize one_band_bands(2)]
  by (simp add: one_band_MahalanobisDistance one_band_initialize one_band_bands)
    (simp add: one_band_fitted_def pixel_vector_def at3_def mean_target_def)

section \<open>Locality of scoring\<close>

lemma index_all_set:
  "index_all n bs = Some js \<Longrightarrow> j \<in> set js \<Longrightarrow> \<exists>b \<in> set bs. py_index n b = Some j"
  by (induction bs arbitrary: js) (auto simp: index_all_Cons split: option.splits)

lemma pixel_vector_agree:
  assumes "agree_at bands img1 img2 r c"
    and "index_all (dim0 img1) bands = Some js"
  shows "pixel_vector img1 js r c = pixel_vector img2 js r c"
  unfolding pixel_vector_def
proof (rule map_cong [OF refl])
  fix j assume "j \<in> set js"
  then obtain b where "b \<in> set bands" "py_index (dim0 img1) b = Some j"
    using index_all_set [OF assms(2)] by blast
  then show "at3 img1 j r c = at3 img2 j r c"
    using assms(1) by (auto simp: agree_at_def list_all_iff)
qed

lemma select_pixels_row:
  assumes "select_pixels img bands = Inr pixels" and "wf3 img" and "r < dim1 img" and "c < dim2 img"
  shows "\<exists>js. index_all (dim0 img) bands = Some js
           \<and> length pixels = dim1 img * dim2 img
           \<and> pixels ! (r * dim2 img + c) = pixel_vector img js r c"
proof -
  obtain js where js: "index_all (dim0 img) bands = Some js"
    and px: "pixels = map (\<lambda>p. map (\<lambda>j. plane img j ! p) js) [0..<dim1 img * dim2 img]"
    using assms(1) by (auto simp: select_pixels_Inr)
  have p: "r * dim2 img + c < dim1 img * dim2 img" using assms(3,4) by (rule raster_index_less)
  have "pixels ! (r * dim2 img + c) = pixel_vector img js r c"
    using px p pixel_vector_plane [OF assms(2) js assms(3,4)] by simp
  then show ?thesis using js px by simp
qed

lemma select_pixels_same_shape:
  assumes "dim0 img1 = dim0 img2"
  shows "select_pixels img1 bands = Inl e \<longleftrightarrow> select_pixels img2 bands = Inl e"
  using assms by (auto simp: select_pixels_def Let_def split: option.splits if_splits)

lemma calculate_distance_pixel:
  assumes "calculate_distance lapack_inv self img = Inr out"
    and "wf3 img" and "r < dim1 img" and "c < dim2 img"
  shows "\<exists>js cv P avg. index_all (dim0 img) (distance_bands_to_use self) = Some js
           \<and> covariance self = Some cv \<and> np_linalg_inv lapack_inv cv = Inr P
           \<and> average self = Some avg
           \<and> at3 out 0 r c = np_sqrt (sum_list (map2 (*)
                  (map2 (-) (pixel_vector img js r c) avg)
                  (matmul_row (map2 (-) (pixel_vector img js r c) avg) P)))"
proof -
  obtain pixels where sp: "select_pixels img (distance_bands_to_use self) = Inr pixels"
    using assms(1) by (auto simp: calculate_distance_def split: sum.splits)
  obtain cv where cv: "covariance self = Some cv"
    using assms(1) sp by (auto simp: calculate_distance_def split: option.splits)
  obtain P where P: "np_linalg_inv lapack_inv cv = Inr P"
    using assms(1) sp cv by (auto simp: calculate_distance_def split: sum.splits)
  obtain avg where avg: "average self = Some avg"
    using assms(1) sp cv P by (auto simp: calculate_distance_def split: option.splits)
  obtain js where js: "index_all (dim0 img) (distance_bands_to_use self) = Some js"
    and len: "length pixels = dim1 img * dim2 img"
    and row: "pixels ! (r * dim2 img + c) = pixel_vector img js r c"
    using select_pixels_row [OF sp assms(2,3,4)] by blast
  have p: "r * dim2 img + c < dim1 img * dim2 img" using assms(3,4) by (rule raster_index_less)
  have "out = \<lparr>dim0 = 1, dim1 = dim1 img, dim2 = dim2 img,
      flat = map np_sqrt (map sum_list (map (\<lambda>d. map2 (*) d (matmul_row d P))
               (map (\<lambda>x. map2 (-) x avg) pixels)))\<rparr>"
    using assms(1) sp cv P avg by (auto simp: calculate_distance_def Let_def comp_def)
  then have "at3 out 0 r c = np_sqrt (sum_list (map2 (*)
                  (map2 (-) (pixels ! (r * dim2 img + c)) avg)
                  (matmul_row (map2 (-) (pixels ! (r * dim2 img + c)) avg) P)))"
    using p len by (simp add: at3_def)
  then show ?thesis using js cv P avg row by simp
qed

lemma calculate_distance_same_shape:
  assumes "dim0 img1 = dim0 img2"
  shows "calculate_distance lapack_inv self img1 = Inl e
     \<longleftrightarrow> calculate_distance lapack_inv self img2 = Inl e"
proof (cases "select_pixels img1 (distance_bands_to_use self)")
  case (Inl e1)
  then have "select_pixels img2 (distance_bands_to_use self) = Inl e1"
    using select_pixels_same_shape [OF assms] by simp
  then show ?thesis using Inl by (simp add: calculate_distance_def)
next
  case (Inr px1)
  then obtain px2 where px2: "select_pixels img2 (distance_bands_to_use self) = Inr px2"
    using select_pixels_same_shape [OF assms, of "distance_bands_to_use self"]
    by (cases "select_pixels img2 (distance_bands_to_use self)") auto
  show ?thesis
    by (simp add: calculate_distance_def Inr px2 Let_def split: option.splits sum.splits)
qed


lemma gmm_calculate_distance_pixel:
  assumes "gmm_calculate_distance score_samples self img = Inr out"
    and "gmm self = Some g"
    and "\<forall>X ys. score_samples g X = Inr ys \<longrightarrow> ys = map log_likelihood X"
    and "wf3 img" and "r < dim1 img" and "c < dim2 img"
  shows "\<exists>js. index_all (dim0 img) (distance_bands_to_use self) = Some js
           \<and> at3 out 0 r c = log_likelihood (pixel_vector img js r c)"
proof -
  obtain pixels where sp: "select_pixels img (distance_bands_to_use self) = Inr pixels"
    using assms(1) by (auto simp: gmm_calculate_distance_def split: sum.splits)
  obtain ll where ll: "score_samples g pixels = Inr ll"
    using assms(1,2) sp by (auto simp: gmm_calculate_distance_def split: sum.splits)
  have out: "out = \<lparr>dim0 = 1, dim1 = dim1 img, dim2 = dim2 img, flat = ll\<rparr>"
    using assms(1,2) sp ll by (auto simp: gmm_calculate_distance_def split: if_splits)
  have m: "ll = map log_likelihood pixels" using assms(3) ll by blast
  obtain js where js: "index_all (dim0 img) (distance_bands_to_use self) = Some js"
    and len: "length pixels = dim1 img * dim2 img"
    and row: "pixels ! (r * dim2 img + c) = pixel_vector img js r c"
    using select_pixels_row [OF sp assms(4,5,6)] by blast
  have p: "r * dim2 img + c < dim1 img * dim2 img" using assms(5,6) by (rule raster_index_less)
  have "at3 out 0 r c = log_likelihood (pixels ! (r * dim2 img + c))"
    using out m p len by (simp add: at3_def)
  then show ?thesis using js row by simp
qed

text \<open>
  Claim C10. Scoring is local to the pixel. For two target images of the same shape that
  agree at pixel \<open>(r, c)\<close> on all selected bands, the unimodal model fails on both with the
  same error or returns outputs that agree at \<open>(r, c)\<close>; and so do the outputs of a fitted
  mixture model, whose \<open>score_samples\<close> (scikit-learn's, not part of the program) scores
  every sample by a function \<open>log_likelihood\<close> of that sample alone.
\<close>

theorem scoring_is_local:
  fixes self :: mahalanobis_distance and mixture :: "'g gaussian_mixture_model_distance"
  assumes "dim0 img = dim0 img'" and "dim1 img = dim1 img'" and "dim2 img = dim2 img'"
    and "wf3 img" and "wf3 img'" and "r < dim1 img" and "c < dim2 img"
    and "agree_at (distance_bands_to_use self) img img' r c"
    and "agree_at (distance_bands_to_use mixture) img img' r c"
    and "gmm mixture = Some g"
    and "\<forall>X ys. score_samples g X = Inr ys \<longrightarrow> ys = map log_likelihood X"
  shows "(\<forall>e. calculate_distance lapack_inv self img = Inl e
             \<longleftrightarrow> calculate_distance lapack_inv self img' = Inl e)
       \<and> (\<forall>out1 out2. calculate_distance lapack_inv self img = Inr out1
             \<and> calculate_distance lapack_inv self img' = Inr out2
             \<longrightarrow> at3 out1 0 r c = at3 out2 0 r c)
       \<and> (\<forall>out1 out2. gmm_calculate_distance score_samples mixture img = Inr out1
             \<and> gmm_calculate_distance score_samples mixture img' = Inr out2
             \<longrightarrow> at3 out1 0 r c = at3 out2 0 r c)"
proof -
  have rc2: "r < dim1 img'" "c < dim2 img'" using assms(2,3,6,7) by simp_all
  have u: "at3 out1 0 r c = at3 out2 0 r c"
    if o1: "calculate_distance lapack_inv self img = Inr out1"
      and o2: "calculate_distance lapack_inv self img' = Inr out2" for out1 out2
  proof -
    obtain js cv P avg where js: "index_all (dim0 img) (distance_bands_to_use self) = Some js"
      and m: "covariance self = Some cv" "np_linalg_inv lapack_inv cv = Inr P" "average self = Some avg"
      and v1: "at3 out1 0 r c = np_sqrt (sum_list (map2 (*)
                  (map2 (-) (pixel_vector img js r c) avg)
                  (matmul_row (map2 (-) (pixel_vector img js r c) avg) P)))"
      using calculate_distance_pixel [OF o1 assms(4,6,7)] by blast
    obtain js' cv' P' avg' where js': "index_all (dim0 img') (distance_bands_to_use self) = Some js'"
      and m': "covariance self = Some cv'" "np_linalg_inv lapack_inv cv' = Inr P'" "average self = Some avg'"
      and v2: "at3 out2 0 r c = np_sqrt (sum_list (map2 (*)
                  (map2 (-) (pixel_vector img' js' r c) avg')
                  (matmul_row (map2 (-) (pixel_vector img' js' r c) avg') P')))"
      using calculate_distance_pixel [OF o2 assms(5) rc2] by blast
    have "js' = js" "cv' = cv" "avg' = avg" using js js' m m' assms(1) by simp_all
    then have "P' = P" using m m' by simp
    have "pixel_vector img js r c = pixel_vector img' js r c"
      by (rule pixel_vector_agree [OF assms(8) js])
    then show ?thesis using v1 v2 \<open>js' = js\<close> \<open>avg' = avg\<close> \<open>P' = P\<close> by simp
  qed
  have g: "at3 out1 0 r c = at3 out2 0 r c"
    if o1: "gmm_calculate_distance score_samples mixture img = Inr out1"
      and o2: "gmm_calculate_distance score_samples mixture img' = Inr out2" for out1 out2
  proof -
    obtain js where js: "index_all (dim0 img) (distance_bands_to_use mixture) = Some js"
      and v1: "at3 out1 0 r c = log_likelihood (pixel_vector img js r c)"
      using gmm_calculate_distance_pixel [OF o1 assms(10,11,4,6,7)] by blast
    obtain js' where js': "index_all (dim0 img') (distance_bands_to_use mixture) = Some js'"
      and v2: "at3 out2 0 r c = log_likelihood (pixel_vector img' js' r c)"
      using gmm_calculate_distance_pixel [OF o2 assms(10,11,5) rc2] by blast
    have "js' = js" using js js' assms(1) by simp
    moreover have "pixel_vector img js r c = pixel_vector img' js r c"
      by (rule pixel_vector_agree [OF assms(9) js])
    ultimately show ?thesis using v1 v2 by simp
  qed
  show ?thesis
    using calculate_distance_same_shape [OF assms(1)] u g by blast
qed

theorem scoring_is_local_witness:
  "initialize example_unfitted = Inr example_fitted
   \<and> agree_at [0, 1] example_target example_target' 0 0
   \<and> at3 example_target 0 0 1 \<noteq> at3 example_target' 0 0 1
   \<and> calculate_distance example_inv example_fitted example_target
       = Inr \<lparr>dim0 = 1, dim1 = 1, dim2 = 2, flat = [Some 0, Some 8]\<rparr>
   \<and> calculate_distance example_inv example_fitted example_target'
       = Inr \<lparr>dim0 = 1, dim1 = 1, dim2 = 2, flat = [Some 0, Some 16]\<rparr>
   \<and> gmm_calculate_distance example_score_samples example_mixture example_target
       = Inr \<lparr>dim0 = 1, dim1 = 1, dim2 = 2, flat = [0, - 1]\<rparr>
   \<and> gmm_calculate_distance example_score_samples example_mixture example_target'
       = Inr \<lparr>dim0 = 1, dim1 = 1, dim2 = 2, flat = [0, - 4]\<rparr>"
proof -
  have a: "agree_at [0, 1] example_target example_target' 0 0"
    by (simp add: agree_at_def py_index_def at3_def example_target_def example_target'_def)
  have d: "at3 example_target 0 0 1 \<noteq> at3 example_target' 0 0 1"
    by (simp add: at3_def example_target_def example_target'_def)
  have r: "\<forall>X ys. example_score_samples [1, 1] X = Inr ys \<longrightarrow>
      ys = map (\<lambda>x. - sum_list (map2 (\<lambda>a b. (a - b) * (a - b)) x [1, 1])) X"
    by (simp add: example_score_samples_def)
  have "at3 \<lparr>dim0 = 1, dim1 = 1, dim2 = 2, flat = [Some 0, Some 8]\<rparr> 0 0 0
      = at3 \<lparr>dim0 = 1, dim1 = 1, dim2 = 2, flat = [Some 0, Some (16::real)]\<rparr> 0 0 0"
    using scoring_is_local [where self = example_fitted and mixture = example_mixture
        and img = example_target and img' = example_target' and r = 0 and c = 0
        and score_samples = example_score_samples and g = "[1, 1]" and lapack_inv = example_inv, OF _ _ _ example_wf(3,4) _ _ _ _ _ r]
      a example_scores example_scores'
    by (simp add: example_fitted_fields(3) example_mixture_def example_unfitted_mixture_def)
      (simp add: example_target_def example_target'_def)
  then show ?thesis
    using a d example_initialize example_scores example_scores' example_mixture_scores by simp
qed

end
